theory Spec2Isabelle
  imports Complex_Main "HOL-Library.AList" "HOL-Library.Multiset" "HOL-Library.Log_Nat"
begin

section \<open>Noise statistics of a set of judgments (\<^verbatim>\<open>noise_audit.py\<close>)\<close>

text \<open>
  The script holds one function, \<^verbatim>\<open>calculate_noise_stats(scores, target_value=None)\<close>.
  It is embedded below line by line.

  Number models. The function is embedded over exact arithmetic: a Python \<^verbatim>\<open>float\<close> is
  the real number it denotes and every operation is the exact one. The statements about
  the algorithm (what is computed, from what, under which key) are made in this model.
  The interpreter computes in binary64, where each operation rounds. A second, small
  model of binary64 rounding covers \<^verbatim>\<open>mean = sum(scores) / n\<close> and \<^verbatim>\<open>round(x, 2)\<close>; it
  is used where a statement of exact arithmetic does not carry over to the rounded
  computation. In binary64 \<^verbatim>\<open>x ** 2\<close> also raises \<^verbatim>\<open>OverflowError\<close> when the square
  exceeds the largest float; scores of that size are outside both models.
\<close>

subsection \<open>Values, exceptions and the built-ins the function calls\<close>

text \<open>The exceptions the built-ins used here can raise.\<close>

datatype py_error = ZeroDivisionError | ValueError | IndexError

text \<open>
  The values stored in the returned dictionary: a number, a string (the error message)
  or the list of scores.
\<close>

datatype py_value = Num real | Str string | NumList "real list"

text \<open>
  A Python \<^verbatim>\<open>dict\<close> with string keys, as an association list in insertion order.
  The literal \<^verbatim>\<open>{k1: v1, ...}\<close> is the list of its pairs; the assignment
  \<^verbatim>\<open>d[k] = v\<close> is \<^const>\<open>AList.update\<close>, which replaces the value of a key that is
  present and appends a new key at the end.
\<close>

type_synonym py_dict = "(string \<times> py_value) list"

definition keys :: "py_dict \<Rightarrow> string list" where
  "keys d = map fst d"

text \<open>Sequencing of computations that may raise: the first exception wins.\<close>

definition and_then :: "py_error + 'a \<Rightarrow> ('a \<Rightarrow> py_error + 'b) \<Rightarrow> py_error + 'b" where
  "and_then m f = (case m of Inl e \<Rightarrow> Inl e | Inr x \<Rightarrow> f x)"

text \<open>\<^verbatim>\<open>sum(xs)\<close>: the items are added from left to right, starting from 0.\<close>

definition py_sum :: "real list \<Rightarrow> real" where
  "py_sum xs = foldl (+) 0 xs"

text \<open>\<^verbatim>\<open>a / b\<close> raises on a zero divisor.\<close>

definition py_div :: "real \<Rightarrow> real \<Rightarrow> py_error + real" where
  "py_div a b = (if b = 0 then Inl ZeroDivisionError else Inr (a / b))"

text \<open>\<^verbatim>\<open>math.sqrt(x)\<close> raises \<^verbatim>\<open>ValueError\<close> (math domain error) on a negative argument.\<close>

definition py_sqrt :: "real \<Rightarrow> py_error + real" where
  "py_sqrt x = (if x < 0 then Inl ValueError else Inr (sqrt x))"

text \<open>\<^verbatim>\<open>xs[i]\<close> for an index \<^verbatim>\<open>i >= 0\<close> raises \<^verbatim>\<open>IndexError\<close> beyond the end.\<close>

definition py_index :: "'a list \<Rightarrow> nat \<Rightarrow> py_error + 'a" where
  "py_index xs i = (if i < length xs then Inr (xs ! i) else Inl IndexError)"

text \<open>
  \<^verbatim>\<open>round(x, 2)\<close>: the closest multiple of \<open>1/100\<close>; of two equally close multiples,
  the even one.
\<close>

definition round_half_even :: "real \<Rightarrow> int" where
  "round_half_even x =
     (let f = \<lfloor>x\<rfloor>; d = x - of_int f
      in if d < 1 / 2 then f
         else if 1 / 2 < d then f + 1
         else if even f then f else f + 1)"

definition py_round2 :: "real \<Rightarrow> real" where
  "py_round2 x = of_int (round_half_even (x * 100)) / 100"

subsection \<open>The local variables of \<^verbatim>\<open>calculate_noise_stats\<close>\<close>

text \<open>
  Each local variable of the function is a definition of its own, so that the values
  before rounding can be named. \<^verbatim>\<open>n = len(scores)\<close> is \<^term>\<open>length scores\<close>.
\<close>

text \<open>\<^verbatim>\<open>mean = sum(scores) / n\<close>\<close>

definition mean_of :: "real list \<Rightarrow> py_error + real" where
  "mean_of scores = py_div (py_sum scores) (real (length scores))"

text \<open>\<^verbatim>\<open>variance = sum((x - mean) ** 2 for x in scores) / n\<close>\<close>

definition variance_of :: "real list \<Rightarrow> py_error + real" where
  "variance_of scores =
     and_then (mean_of scores) (\<lambda>mean.
       py_div (py_sum (map (\<lambda>x. (x - mean) ^ 2) scores)) (real (length scores)))"

text \<open>\<^verbatim>\<open>std_dev = math.sqrt(variance)\<close>\<close>

definition std_dev_of :: "real list \<Rightarrow> py_error + real" where
  "std_dev_of scores = and_then (variance_of scores) py_sqrt"

text \<open>\<^verbatim>\<open>sorted(scores)[n // 2]\<close>\<close>

definition median_of :: "real list \<Rightarrow> py_error + real" where
  "median_of scores = py_index (sort scores) (length scores div 2)"

text \<open>\<^verbatim>\<open>bias = mean - target_value\<close>\<close>

definition bias_of :: "real list \<Rightarrow> real \<Rightarrow> py_error + real" where
  "bias_of scores target = and_then (mean_of scores) (\<lambda>mean. Inr (mean - target))"

text \<open>\<^verbatim>\<open>mse = (bias ** 2) + variance\<close>\<close>

definition mse_of :: "real list \<Rightarrow> real \<Rightarrow> py_error + real" where
  "mse_of scores target =
     and_then (variance_of scores) (\<lambda>variance.
     and_then (bias_of scores target) (\<lambda>bias. Inr (bias ^ 2 + variance)))"

subsection \<open>The function\<close>

text \<open>
  \<^verbatim>\<open>target_value\<close> is \<^verbatim>\<open>None\<close> or a number: a \<^typ>\<open>real option\<close>. The result is
  the returned dictionary, or the exception that ended the call.
\<close>

definition calculate_noise_stats :: "real list \<Rightarrow> real option \<Rightarrow> py_error + py_dict" where
  "calculate_noise_stats scores target_value =
     (if scores = [] then Inr [(''error'', Str ''No scores provided'')]
      else
        and_then (mean_of scores) (\<lambda>mean.
        and_then (variance_of scores) (\<lambda>variance.
        and_then (std_dev_of scores) (\<lambda>std_dev.
        and_then (median_of scores) (\<lambda>median.
          let result =
                [(''mean'', Num (py_round2 mean)),
                 (''median'', Num median),
                 (''std_dev'', Num (py_round2 std_dev)),
                 (''variance'', Num (py_round2 variance)),
                 (''raw_scores'', NumList scores)]
          in case target_value of
               None \<Rightarrow> Inr result
             | Some target \<Rightarrow>
                 and_then (bias_of scores target) (\<lambda>bias.
                 and_then (mse_of scores target) (\<lambda>mse.
                   Inr (AList.update ''bias_component'' (Num (py_round2 bias))
                         (AList.update ''mse'' (Num (py_round2 mse)) result)))))))))"

text \<open>The keys that carry a statistic.\<close>

definition stat_keys :: "string list" where
  "stat_keys =
     [''mean'', ''median'', ''std_dev'', ''variance'', ''raw_scores'', ''mse'', ''bias_component'']"

subsection \<open>The statistics in the words of the specification\<close>

text \<open>
  The specification names two quantities: the arithmetic mean (the sum divided by the
  count) and the population variance (the mean of the squared deviations from the mean,
  with divisor \<open>n\<close>, not \<open>n - 1\<close>). They are written here as the specification
  words them, to be compared with what the function computes.
\<close>

definition arithmetic_mean :: "real list \<Rightarrow> real" where
  "arithmetic_mean xs = sum_list xs / real (length xs)"

definition population_variance :: "real list \<Rightarrow> real" where
  "population_variance xs =
     (\<Sum>x\<leftarrow>xs. (x - arithmetic_mean xs) ^ 2) / real (length xs)"

subsection \<open>Binary64 arithmetic\<close>

text \<open>
  The interpreter computes with binary64 numbers: every operation returns the exact
  result rounded to the nearest number with a 53-bit significand, the one with the even
  significand of two equally near. A binary64 number is modelled by the rational it
  denotes. \<open>None\<close> stands for a result outside the normal range (the interpreter would
  give an infinity or a subnormal number, or raise); such runs are not followed here.
\<close>

definition pow2 :: "int \<Rightarrow> rat" where
  "pow2 e = (if 0 \<le> e then 2 ^ nat e else 1 / 2 ^ nat (- e))"

text \<open>The binary exponent \<open>k\<close> of a positive rational: \<open>pow2 k \<le> x < pow2 (k + 1)\<close>.\<close>

definition ilog2 :: "rat \<Rightarrow> int" where
  "ilog2 x = (if 1 \<le> x then bitlen \<lfloor>x\<rfloor> - 1 else - bitlen (\<lceil>1 / x\<rceil> - 1))"

definition nearest_even :: "rat \<Rightarrow> int" where
  "nearest_even x =
     (let f = \<lfloor>x\<rfloor>; d = x - of_int f
      in if d < 1 / 2 then f
         else if 1 / 2 < d then f + 1
         else if even f then f else f + 1)"

text \<open>Rounding an exact result to binary64.\<close>

definition b64 :: "rat \<Rightarrow> rat option" where
  "b64 x =
     (if x = 0 then Some 0
      else
        let k = ilog2 \<bar>x\<bar>;
            m = nearest_even (\<bar>x\<bar> / pow2 (k - 52))
        in if - 1022 \<le> k \<and> (if m = 2 ^ 53 then k + 1 else k) \<le> 1023
           then Some (sgn x * of_int m * pow2 (k - 52))
           else None)"

text \<open>
  \<^verbatim>\<open>sum(xs)\<close> on floats. Up to CPython 3.11 it adds from left to right, each addition
  rounded.
\<close>

fun b64_sum_from :: "rat \<Rightarrow> rat list \<Rightarrow> rat option" where
  "b64_sum_from s [] = Some s"
| "b64_sum_from s (x # xs) = Option.bind (b64 (s + x)) (\<lambda>t. b64_sum_from t xs)"

definition b64_sum :: "rat list \<Rightarrow> rat option" where
  "b64_sum xs = b64_sum_from 0 xs"

text \<open>
  From CPython 3.12 the sum of floats carries a compensation \<open>c\<close> (Neumaier's variant of
  Kahan summation): for each item \<open>x\<close>, \<open>t = f + x\<close>, the rounding error of that addition
  is added to \<open>c\<close>, and \<open>f\<close> becomes \<open>t\<close>; at the end \<open>c\<close> is added to \<open>f\<close> if it is not
  zero.
\<close>

fun b64_compensated_from :: "rat \<Rightarrow> rat \<Rightarrow> rat list \<Rightarrow> rat option" where
  "b64_compensated_from f c [] = (if c \<noteq> 0 then b64 (f + c) else Some f)"
| "b64_compensated_from f c (x # xs) =
     Option.bind (b64 (f + x)) (\<lambda>t.
     Option.bind (if \<bar>x\<bar> \<le> \<bar>f\<bar>
                  then Option.bind (b64 (f - t)) (\<lambda>u. b64 (u + x))
                  else Option.bind (b64 (x - t)) (\<lambda>u. b64 (u + f))) (\<lambda>d.
     Option.bind (b64 (c + d)) (\<lambda>c'.
       b64_compensated_from t c' xs)))"

definition b64_sum_compensated :: "rat list \<Rightarrow> rat option" where
  "b64_sum_compensated xs =
     (case xs of [] \<Rightarrow> Some 0 | x # ys \<Rightarrow> b64_compensated_from x 0 ys)"

text \<open>
  \<^verbatim>\<open>mean = sum(scores) / n\<close> in binary64, for either summation. On the empty list the
  division raises.
\<close>

definition mean_of_b64 :: "(rat list \<Rightarrow> rat option) \<Rightarrow> rat list \<Rightarrow> rat option" where
  "mean_of_b64 sum_b64 scores =
     (if scores = [] then None
      else Option.bind (sum_b64 scores) (\<lambda>s. b64 (s / of_nat (length scores))))"

text \<open>
  \<^verbatim>\<open>round(x, 2)\<close> on a float: the exact value is rounded to two decimals (half to even)
  and the decimal is rounded to binary64.
\<close>

definition b64_round2 :: "rat \<Rightarrow> rat option" where
  "b64_round2 x = b64 (of_int (nearest_even (x * 100)) / 100)"

section \<open>Properties\<close>

subsection \<open>The built-ins\<close>

lemma foldl_plus: "foldl (+) a xs = a + sum_list xs" for a :: real
  by (induction xs arbitrary: a) simp_all

lemma py_sum_sum_list: "py_sum xs = sum_list xs"
  by (simp add: py_sum_def foldl_plus)

lemma half_length_less: "xs \<noteq> [] \<Longrightarrow> length xs div 2 < length xs"
  by (cases xs) simp_all






subsection \<open>The local variables on a non-empty input\<close>

text \<open>
  On a non-empty list no built-in raises: the divisor \<open>n\<close> is positive, the variance
  is not negative and the index \<open>n div 2\<close> is within the sorted list.
\<close>

lemma mean_of_nonempty:
  "scores \<noteq> [] \<Longrightarrow> mean_of scores = Inr (arithmetic_mean scores)"
  by (simp add: mean_of_def py_div_def py_sum_sum_list arithmetic_mean_def)

lemma variance_of_nonempty:
  "scores \<noteq> [] \<Longrightarrow> variance_of scores = Inr (population_variance scores)"
  by (simp add: variance_of_def and_then_def mean_of_nonempty py_div_def py_sum_sum_list
      population_variance_def)

lemma population_variance_nonneg: "0 \<le> population_variance xs"
  unfolding population_variance_def
  by (intro divide_nonneg_nonneg sum_list_nonneg) auto

lemma std_dev_of_nonempty:
  "scores \<noteq> [] \<Longrightarrow> std_dev_of scores = Inr (sqrt (population_variance scores))"
  using population_variance_nonneg [of scores]
  by (simp add: std_dev_of_def and_then_def variance_of_nonempty py_sqrt_def)

lemma median_of_nonempty:
  "scores \<noteq> [] \<Longrightarrow> median_of scores = Inr (sort scores ! (length scores div 2))"
  by (simp add: median_of_def py_index_def half_length_less)

lemma bias_of_nonempty:
  "scores \<noteq> [] \<Longrightarrow> bias_of scores target = Inr (arithmetic_mean scores - target)"
  by (simp add: bias_of_def and_then_def mean_of_nonempty)

lemma mse_of_nonempty:
  "scores \<noteq> [] \<Longrightarrow>
   mse_of scores target =
     Inr ((arithmetic_mean scores - target) ^ 2 + population_variance scores)"
  by (simp add: mse_of_def and_then_def variance_of_nonempty bias_of_nonempty)

subsection \<open>The returned dictionary on a non-empty input\<close>

lemma stats_without_target:
  "scores \<noteq> [] \<Longrightarrow>
   calculate_noise_stats scores None =
     Inr [(''mean'', Num (py_round2 (arithmetic_mean scores))),
          (''median'', Num (sort scores ! (length scores div 2))),
          (''std_dev'', Num (py_round2 (sqrt (population_variance scores)))),
          (''variance'', Num (py_round2 (population_variance scores))),
          (''raw_scores'', NumList scores)]"
  by (simp add: calculate_noise_stats_def and_then_def mean_of_nonempty variance_of_nonempty
      std_dev_of_nonempty median_of_nonempty)

lemma stats_with_target:
  "scores \<noteq> [] \<Longrightarrow>
   calculate_noise_stats scores (Some target) =
     Inr [(''mean'', Num (py_round2 (arithmetic_mean scores))),
          (''median'', Num (sort scores ! (length scores div 2))),
          (''std_dev'', Num (py_round2 (sqrt (population_variance scores)))),
          (''variance'', Num (py_round2 (population_variance scores))),
          (''raw_scores'', NumList scores),
          (''mse'', Num (py_round2 ((arithmetic_mean scores - target) ^ 2
                                     + population_variance scores))),
          (''bias_component'', Num (py_round2 (arithmetic_mean scores - target)))]"
  by (simp add: calculate_noise_stats_def and_then_def mean_of_nonempty variance_of_nonempty
      std_dev_of_nonempty median_of_nonempty bias_of_nonempty mse_of_nonempty)

lemma calculate_noise_stats_nonempty:
  "scores \<noteq> [] \<Longrightarrow>
   calculate_noise_stats scores target_value =
     Inr ([(''mean'', Num (py_round2 (arithmetic_mean scores))),
           (''median'', Num (sort scores ! (length scores div 2))),
           (''std_dev'', Num (py_round2 (sqrt (population_variance scores)))),
           (''variance'', Num (py_round2 (population_variance scores))),
           (''raw_scores'', NumList scores)]
          @ (case target_value of
               None \<Rightarrow> []
             | Some target \<Rightarrow>
                 [(''mse'', Num (py_round2 ((arithmetic_mean scores - target) ^ 2
                                            + population_variance scores))),
                  (''bias_component'', Num (py_round2 (arithmetic_mean scores - target)))]))"
  by (cases target_value) (simp_all add: stats_without_target stats_with_target)

subsection \<open>Sums and sorting of a permuted list\<close>

lemma sum_list_mset_cong: "mset xs = mset ys \<Longrightarrow> sum_list xs = sum_list ys" for xs :: "real list"
  by (metis sum_mset_sum_list)

lemma sum_list_map_mset_cong:
  "mset xs = mset ys \<Longrightarrow> sum_list (map f xs) = sum_list (map f ys)" for f :: "real \<Rightarrow> real"
  by (metis mset_map sum_mset_sum_list)

lemma arithmetic_mean_mset_cong:
  "mset xs = mset ys \<Longrightarrow> arithmetic_mean xs = arithmetic_mean ys"
  by (simp add: arithmetic_mean_def sum_list_mset_cong [of xs ys] mset_eq_length [of xs ys])

lemma population_variance_mset_cong:
  "mset xs = mset ys \<Longrightarrow> population_variance xs = population_variance ys"
  by (simp add: population_variance_def arithmetic_mean_mset_cong [of xs ys]
      sum_list_map_mset_cong [of xs ys] mset_eq_length [of xs ys])

lemma sort_mset_cong: "mset xs = mset ys \<Longrightarrow> sort xs = sort ys" for xs :: "real list"
  by (rule properties_for_sort) simp_all

subsection \<open>Bounds on the mean\<close>

lemma sum_list_lower: "(\<And>x. x \<in> set xs \<Longrightarrow> m \<le> x) \<Longrightarrow> real (length xs) * m \<le> sum_list xs"
  by (induction xs) (auto simp: algebra_simps intro: add_mono)

lemma sum_list_upper: "(\<And>x. x \<in> set xs \<Longrightarrow> x \<le> m) \<Longrightarrow> sum_list xs \<le> real (length xs) * m"
  by (induction xs) (auto simp: algebra_simps intro: add_mono)

lemma arithmetic_mean_bounds:
  assumes "xs \<noteq> []"
  shows "Min (set xs) \<le> arithmetic_mean xs" and "arithmetic_mean xs \<le> Max (set xs)"
proof -
  have n: "0 < real (length xs)" using assms by simp
  have "real (length xs) * Min (set xs) \<le> sum_list xs"
    by (rule sum_list_lower) simp
  then show "Min (set xs) \<le> arithmetic_mean xs"
    using n by (simp add: arithmetic_mean_def pos_le_divide_eq mult.commute)
  have "sum_list xs \<le> real (length xs) * Max (set xs)"
    by (rule sum_list_upper) simp
  then show "arithmetic_mean xs \<le> Max (set xs)"
    using n by (simp add: arithmetic_mean_def pos_divide_le_eq mult.commute)
qed

subsection \<open>The mean squared error about the target\<close>

text \<open>
  The sum \<open>bias\<^sup>2 + variance\<close> that the function stores under \<^verbatim>\<open>mse\<close> is the mean of
  the squared distances of the scores from the target.
\<close>

lemma mse_is_mean_squared_error:
  assumes "xs \<noteq> []"
  shows "(arithmetic_mean xs - t) ^ 2 + population_variance xs
         = (\<Sum>x\<leftarrow>xs. (x - t) ^ 2) / real (length xs)"
proof -
  define n where "n = real (length xs)"
  define m where "m = arithmetic_mean xs"
  have n: "n \<noteq> 0" using assms by (simp add: n_def)
  have s: "sum_list xs = n * m" using n by (simp add: m_def arithmetic_mean_def n_def)
  have "(\<Sum>x\<leftarrow>xs. (x - t) ^ 2) = (\<Sum>x\<leftarrow>xs. (x - m) ^ 2 + (2 * (m - t)) * x + (t ^ 2 - m ^ 2))"
    by (rule arg_cong [where f = sum_list], rule map_cong) (auto simp: power2_eq_square algebra_simps)
  also have "\<dots> = (\<Sum>x\<leftarrow>xs. (x - m) ^ 2) + (2 * (m - t)) * sum_list xs + n * (t ^ 2 - m ^ 2)"
    by (simp add: sum_list_addf sum_list_const_mult sum_list_triv n_def)
  also have "\<dots> = (\<Sum>x\<leftarrow>xs. (x - m) ^ 2) + n * (m - t) ^ 2"
    by (simp add: s power2_eq_square algebra_simps)
  finally have "(\<Sum>x\<leftarrow>xs. (x - t) ^ 2) / n = (\<Sum>x\<leftarrow>xs. (x - m) ^ 2) / n + (m - t) ^ 2"
    using n by (simp add: add_divide_distrib)
  then show ?thesis by (simp add: population_variance_def m_def n_def)
qed

subsection \<open>The scenario \<^verbatim>\<open>[10, 20, 30]\<close>\<close>






subsection \<open>The rounding of binary64\<close>

text \<open>
  \<^const>\<open>ilog2\<close> is the binary exponent, and a result of \<^const>\<open>b64\<close> has a significand
  between \<open>2\<^sup>5\<^sup>2\<close> and \<open>2\<^sup>5\<^sup>3\<close> at that exponent and lies within half a unit in the last
  place of the exact value.
\<close>

lemma pow2_pos: "0 < pow2 e"
  by (simp add: pow2_def)

lemma pow2_add: "pow2 (a + b) = pow2 a * pow2 b"
proof -
  have "pow2 e = 2 powi e" for e
    by (simp add: pow2_def power_int_def field_simps)
  then show ?thesis by (simp add: power_int_add)
qed

lemma bitlen_ge_one: "0 < n \<Longrightarrow> 1 \<le> bitlen n"
  by (simp add: bitlen_alt_def)

lemma ilog2_bounds:
  assumes "0 < x"
  shows "pow2 (ilog2 x) \<le> x" and "x < pow2 (ilog2 x + 1)"
proof -
  show "pow2 (ilog2 x) \<le> x"
  proof (cases "1 \<le> x")
    case True
    define n where "n = \<lfloor>x\<rfloor>"
    have n: "0 < n" using True by (simp add: n_def)
    have k: "ilog2 x = bitlen n - 1" using True by (simp add: ilog2_def n_def)
    have "(2 :: int) ^ nat (bitlen n - 1) \<le> n" using bitlen_bounds [OF n] by simp
    then have "(of_int ((2 :: int) ^ nat (bitlen n - 1)) :: rat) \<le> of_int n"
      by (simp only: of_int_le_iff)
    also have "\<dots> \<le> x" by (simp add: n_def)
    finally show ?thesis using bitlen_ge_one [OF n] by (simp add: k pow2_def)
  next
    case False
    define n where "n = \<lceil>1 / x\<rceil> - 1"
    have y: "1 < 1 / x" using False assms by simp
    then have n: "0 < n" unfolding n_def by linarith
    have k: "ilog2 x = - bitlen n" using False by (simp add: ilog2_def n_def)
    have "n < 2 ^ nat (bitlen n)" using bitlen_bounds [OF n] by simp
    then have "\<lceil>1 / x\<rceil> \<le> 2 ^ nat (bitlen n)" by (simp add: n_def)
    then have "1 / x \<le> of_int (2 ^ nat (bitlen n))" by (simp only: ceiling_le_iff)
    then have "1 / x \<le> 2 ^ nat (bitlen n)" by simp
    then have "1 / 2 ^ nat (bitlen n) \<le> x"
      using assms by (simp add: field_simps)
    then show ?thesis using bitlen_ge_one [OF n] by (simp add: k pow2_def)
  qed
  show "x < pow2 (ilog2 x + 1)"
  proof (cases "1 \<le> x")
    case True
    define n where "n = \<lfloor>x\<rfloor>"
    have n: "0 < n" using True by (simp add: n_def)
    have k: "ilog2 x = bitlen n - 1" using True by (simp add: ilog2_def n_def)
    have "n < 2 ^ nat (bitlen n)" using bitlen_bounds [OF n] by simp
    then have "n + 1 \<le> 2 ^ nat (bitlen n)" by simp
    then have "(of_int (n + 1) :: rat) \<le> of_int (2 ^ nat (bitlen n))"
      by (simp only: of_int_le_iff)
    moreover have "x < of_int (n + 1)" unfolding n_def by linarith
    ultimately have "x < 2 ^ nat (bitlen n)" by simp
    then show ?thesis using bitlen_ge_one [OF n] by (simp add: k pow2_def)
  next
    case False
    define n where "n = \<lceil>1 / x\<rceil> - 1"
    have y: "1 < 1 / x" using False assms by simp
    then have n: "0 < n" unfolding n_def by linarith
    have k: "ilog2 x = - bitlen n" using False by (simp add: ilog2_def n_def)
    have "(2 :: int) ^ nat (bitlen n - 1) \<le> n" using bitlen_bounds [OF n] by simp
    then have "(2 :: rat) ^ nat (bitlen n - 1) \<le> of_int n"
      by (metis of_int_le_iff of_int_numeral of_int_power)
    moreover have "of_int n < 1 / x" unfolding n_def by linarith
    ultimately have "2 ^ nat (bitlen n - 1) < 1 / x" by linarith
    then have lt: "x < 1 / 2 ^ nat (bitlen n - 1)"
      using assms by (simp add: field_simps)
    show ?thesis
    proof (cases "bitlen n = 1")
      case True
      then show ?thesis using lt by (simp add: k pow2_def)
    next
      case False
      then have "1 < bitlen n" using bitlen_ge_one [OF n] by simp
      then have "nat (bitlen n - 1) = nat (- (- bitlen n + 1))" "\<not> 0 \<le> - bitlen n + 1"
        by simp_all
      then show ?thesis using lt by (simp add: k pow2_def)
    qed
  qed
qed

lemma nearest_even_error: "\<bar>of_int (nearest_even z) - z\<bar> \<le> 1 / 2"
proof -
  have "of_int \<lfloor>z\<rfloor> \<le> z" "z < of_int \<lfloor>z\<rfloor> + 1" by linarith+
  then show ?thesis by (auto simp: nearest_even_def Let_def)
qed

lemma nearest_even_between:
  assumes "of_int a \<le> z" and "z \<le> of_int b"
  shows "a \<le> nearest_even z" and "nearest_even z \<le> b"
proof -
  have f: "a \<le> \<lfloor>z\<rfloor>" using assms(1) by (simp add: le_floor_iff)
  then show "a \<le> nearest_even z" by (auto simp: nearest_even_def Let_def)
  have "\<lfloor>z\<rfloor> \<le> b" using assms(2) by (simp add: floor_le_iff)
  moreover have "\<lfloor>z\<rfloor> = b \<Longrightarrow> z - of_int \<lfloor>z\<rfloor> = 0" using assms(2) by linarith
  ultimately show "nearest_even z \<le> b"
    by (cases "\<lfloor>z\<rfloor> = b") (auto simp: nearest_even_def Let_def)
qed

lemma b64_sound:
  assumes "b64 x = Some y" and "x \<noteq> 0"
  shows "\<exists>m. 2 ^ 52 \<le> m \<and> m \<le> 2 ^ 53
           \<and> y = sgn x * of_int m * pow2 (ilog2 \<bar>x\<bar> - 52)
           \<and> \<bar>y - x\<bar> \<le> pow2 (ilog2 \<bar>x\<bar> - 53)"
proof -
  define k where "k = ilog2 \<bar>x\<bar>"
  define p where "p = pow2 (k - 52)"
  define z where "z = \<bar>x\<bar> / p"
  define m where "m = nearest_even z"
  have p: "0 < p" by (simp add: p_def pow2_pos)
  have y: "y = sgn x * of_int m * p"
    using assms by (auto simp: b64_def Let_def k_def p_def z_def m_def split: if_splits)
  have ax: "0 < \<bar>x\<bar>" using assms(2) by simp
  have c: "pow2 52 = 2 ^ 52" "pow2 53 = 2 ^ 53" "pow2 (- 1) = 1 / 2"
    by (simp_all add: pow2_def)
  have pk: "pow2 k = 2 ^ 52 * p" "pow2 (k + 1) = 2 ^ 53 * p"
    using pow2_add [of 52 "k - 52"] pow2_add [of 53 "k - 52"]
    by (simp_all add: p_def c add.commute)
  have "2 ^ 52 * p \<le> \<bar>x\<bar>" "\<bar>x\<bar> < 2 ^ 53 * p"
    using ilog2_bounds [OF ax] by (simp_all add: k_def [symmetric] pk)
  then have z: "of_int (2 ^ 52) \<le> z" "z \<le> of_int (2 ^ 53)"
    using p by (simp_all add: z_def field_simps)
  have m: "2 ^ 52 \<le> m" "m \<le> 2 ^ 53"
    using nearest_even_between [OF z] by (simp_all add: m_def)
  have "y - x = sgn x * (of_int m * p - \<bar>x\<bar>)"
    by (simp add: y right_diff_distrib mult_sgn_abs mult.assoc)
  also have "of_int m * p - \<bar>x\<bar> = p * (of_int m - z)"
    using p by (simp add: z_def field_simps)
  finally have "\<bar>y - x\<bar> = p * \<bar>of_int m - z\<bar>"
    using p assms(2) by (simp add: abs_mult abs_sgn_eq)
  also have "\<dots> \<le> p * (1 / 2)"
    using nearest_even_error [of z] p by (simp add: m_def)
  also have "\<dots> = pow2 (k - 53)"
    using pow2_add [of "k - 52" "- 1"] by (simp add: p_def c)
  finally have "\<bar>y - x\<bar> \<le> pow2 (k - 53)" .
  then show ?thesis using m y by (auto simp: k_def p_def)
qed

subsection \<open>Evaluations in binary64\<close>

text \<open>
  The float \<^verbatim>\<open>0.1\<close> is \<open>3602879701896397 / 2\<^sup>5\<^sup>5\<close>. Three of them have the binary64 mean
  \<open>7205759403792795 / 2\<^sup>5\<^sup>6\<close>, printed \<^verbatim>\<open>0.10000000000000002\<close>, with either summation.
\<close>

lemma tenth_is_b64:
  "b64 (3602879701896397 / 36028797018963968) = Some (3602879701896397 / 36028797018963968)"
  by code_simp

lemma mean_of_three_tenths:
  "mean_of_b64 b64_sum
     [3602879701896397 / 36028797018963968, 3602879701896397 / 36028797018963968,
      3602879701896397 / 36028797018963968]
   = Some (7205759403792795 / 72057594037927936)"
  by code_simp

lemma mean_of_three_tenths_compensated:
  "mean_of_b64 b64_sum_compensated
     [3602879701896397 / 36028797018963968, 3602879701896397 / 36028797018963968,
      3602879701896397 / 36028797018963968]
   = Some (7205759403792795 / 72057594037927936)"
  by code_simp

text \<open>
  The five scores \<open>2\<^sup>6\<^sup>0\<close>, \<open>- 2\<^sup>6\<^sup>0\<close>, \<open>2\<^sup>1\<^sup>2\<^sup>0\<close>, \<open>- 2\<^sup>1\<^sup>2\<^sup>0\<close>, \<open>1\<close> in two orders. The float
  \<^verbatim>\<open>0.2\<close> is \<open>3602879701896397 / 2\<^sup>5\<^sup>4\<close>.
\<close>

lemma mean_cancelling_order:
  "mean_of_b64 b64_sum [2 ^ 60, - (2 ^ 60), 2 ^ 120, - (2 ^ 120), 1]
   = Some (3602879701896397 / 18014398509481984)"
  by code_simp

lemma mean_absorbing_order:
  "mean_of_b64 b64_sum [2 ^ 120, 2 ^ 60, 1, - (2 ^ 120), - (2 ^ 60)]
   = Some (- 230584300921369408)"
  by code_simp

lemma mean_cancelling_order_compensated:
  "mean_of_b64 b64_sum_compensated [2 ^ 60, - (2 ^ 60), 2 ^ 120, - (2 ^ 120), 1]
   = Some (3602879701896397 / 18014398509481984)"
  by code_simp

lemma mean_absorbing_order_compensated:
  "mean_of_b64 b64_sum_compensated [2 ^ 120, 2 ^ 60, 1, - (2 ^ 120), - (2 ^ 60)] = Some 0"
  by code_simp

lemma round2_fifth:
  "b64_round2 (3602879701896397 / 18014398509481984)
   = Some (3602879701896397 / 18014398509481984)"
  by code_simp

lemma round2_large: "b64_round2 (- 230584300921369408) = Some (- 230584300921369408)"
  by code_simp

lemma round2_zero: "b64_round2 0 = Some 0"
  by code_simp

text \<open>
  Four scores with two decimals, \<^verbatim>\<open>5.54\<close>, \<^verbatim>\<open>8.57\<close>, \<^verbatim>\<open>5.63\<close> and \<^verbatim>\<open>4.88\<close>, whose exact
  mean \<open>6.155\<close> is halfway between two multiples of \<open>1/100\<close>. Added from left to right in
  the order given, the binary64 mean is \<^verbatim>\<open>6.154999999999999\<close> and is reported as
  \<^verbatim>\<open>6.15\<close>; with the second and third score exchanged it is \<^verbatim>\<open>6.155\<close>, reported as
  \<^verbatim>\<open>6.16\<close>.
\<close>

lemma reported_mean_first_order:
  "Option.bind
     (mean_of_b64 b64_sum
        [6237485483908137 / 1125899906842624, 1206120275205161 / 140737488355328,
         6338816475523973 / 1125899906842624, 5494391545392005 / 1125899906842624])
     b64_round2
   = Some (3462142213541069 / 562949953421312)"
  by code_simp

lemma reported_mean_second_order:
  "Option.bind
     (mean_of_b64 b64_sum
        [6237485483908137 / 1125899906842624, 6338816475523973 / 1125899906842624,
         1206120275205161 / 140737488355328, 5494391545392005 / 1125899906842624])
     b64_round2
   = Some (1733885856537641 / 281474976710656)"
  by code_simp

subsection \<open>The empty input\<close>

text \<open>
  C4. Called with an empty list of scores, with or without a target, the function
  returns the dictionary \<^verbatim>\<open>{"error": "No scores provided"}\<close>: it returns (no
  exception is raised), and the dictionary has the key \<^verbatim>\<open>error\<close> only, so none of the
  statistics keys.
\<close>

theorem empty_scores_error:
  "calculate_noise_stats [] target_value = Inr [(''error'', Str ''No scores provided'')]
   \<and> keys [(''error'', Str ''No scores provided'')] = [''error'']
   \<and> set (keys [(''error'', Str ''No scores provided'')]) \<inter> set stat_keys = {}"
  by (simp add: calculate_noise_stats_def keys_def stat_keys_def)

subsection \<open>The median\<close>





subsection \<open>Bias and mean squared error\<close>



subsection \<open>The keys of the result\<close>





subsection \<open>Variance and standard deviation\<close>





subsection \<open>The order of the scores\<close>

text \<open>
  C7, in exact arithmetic. For a non-empty list of scores, any permutation of it and any
  target, every computed statistic (mean, median, variance, standard deviation, bias,
  mean squared error) is the same for both lists, and the two dictionaries differ in the
  \<^verbatim>\<open>raw_scores\<close> entry only, which holds each input in its own order.
\<close>

theorem statistics_permutation_invariant:
  "scores \<noteq> [] \<Longrightarrow> mset scores' = mset scores \<Longrightarrow>
   mean_of scores' = mean_of scores
   \<and> median_of scores' = median_of scores
   \<and> variance_of scores' = variance_of scores
   \<and> std_dev_of scores' = std_dev_of scores
   \<and> bias_of scores' target = bias_of scores target
   \<and> mse_of scores' target = mse_of scores target
   \<and> (\<exists>d d'. calculate_noise_stats scores target_value = Inr d
        \<and> calculate_noise_stats scores' target_value = Inr d'
        \<and> AList.delete ''raw_scores'' d' = AList.delete ''raw_scores'' d
        \<and> map_of d ''raw_scores'' = Some (NumList scores)
        \<and> map_of d' ''raw_scores'' = Some (NumList scores'))"
proof -
  assume ne: "scores \<noteq> []" and p: "mset scores' = mset scores"
  from ne p have ne': "scores' \<noteq> []" by auto
  note eqs = arithmetic_mean_mset_cong [OF p] population_variance_mset_cong [OF p]
    sort_mset_cong [OF p] mset_eq_length [OF p]
  show ?thesis
    using ne ne'
    by (cases target_value)
      (simp_all add: mean_of_nonempty median_of_nonempty variance_of_nonempty
        std_dev_of_nonempty bias_of_nonempty mse_of_nonempty calculate_noise_stats_nonempty eqs)
qed

theorem statistics_permutation_invariant_witness:
  "[30, 10, 20] \<noteq> ([] :: real list) \<and> mset [10, 20, 30] = mset [30, 10, 20 :: real]
   \<and> mean_of [10, 20, 30] = mean_of [30, 10, 20]
   \<and> median_of [10, 20, 30] = median_of [30, 10, 20]
   \<and> variance_of [10, 20, 30] = variance_of [30, 10, 20]
   \<and> std_dev_of [10, 20, 30] = std_dev_of [30, 10, 20]
   \<and> bias_of [10, 20, 30] 25 = bias_of [30, 10, 20] 25
   \<and> mse_of [10, 20, 30] 25 = mse_of [30, 10, 20] 25
   \<and> (\<exists>d d'. calculate_noise_stats [30, 10, 20] (Some 25) = Inr d
        \<and> calculate_noise_stats [10, 20, 30] (Some 25) = Inr d'
        \<and> AList.delete ''raw_scores'' d' = AList.delete ''raw_scores'' d
        \<and> map_of d ''raw_scores'' = Some (NumList [30, 10, 20])
        \<and> map_of d' ''raw_scores'' = Some (NumList [10, 20, 30]))"
proof -
  have p: "mset [10, 20, 30] = mset [30, 10, 20 :: real]" by simp
  show ?thesis
    using statistics_permutation_invariant [of "[30, 10, 20]" "[10, 20, 30]" 25 "Some 25"] p
    by simp
qed

text \<open>
  C7 as stated, for the values the interpreter computes, fails: binary64 addition is not
  associative. The two lists below are permutations of each other. Adding from left to
  right, the first has the mean \<^verbatim>\<open>0.2\<close> and the second \<^verbatim>\<open>-2.305843009213694e+17\<close>; with
  the compensated sum the first has the mean \<^verbatim>\<open>0.2\<close> and the second \<^verbatim>\<open>0.0\<close>. Rounding to
  two decimals changes none of these values, so the \<^verbatim>\<open>mean\<close> entries of the two results
  differ as well.
\<close>

theorem mean_depends_on_order_binary64:
  "mset [2 ^ 120, 2 ^ 60, 1, - (2 ^ 120), - (2 ^ 60)]
     = mset [2 ^ 60, - (2 ^ 60), 2 ^ 120, - (2 ^ 120), 1 :: rat]
   \<and> mean_of_b64 b64_sum [2 ^ 60, - (2 ^ 60), 2 ^ 120, - (2 ^ 120), 1]
      = Some (3602879701896397 / 18014398509481984)
   \<and> mean_of_b64 b64_sum [2 ^ 120, 2 ^ 60, 1, - (2 ^ 120), - (2 ^ 60)]
      = Some (- 230584300921369408)
   \<and> mean_of_b64 b64_sum_compensated [2 ^ 60, - (2 ^ 60), 2 ^ 120, - (2 ^ 120), 1]
      = Some (3602879701896397 / 18014398509481984)
   \<and> mean_of_b64 b64_sum_compensated [2 ^ 120, 2 ^ 60, 1, - (2 ^ 120), - (2 ^ 60)]
      = Some 0
   \<and> b64_round2 (3602879701896397 / 18014398509481984)
      = Some (3602879701896397 / 18014398509481984)
   \<and> b64_round2 (- 230584300921369408) = Some (- 230584300921369408)
   \<and> b64_round2 0 = Some 0
   \<and> (3602879701896397 / 18014398509481984 :: rat) \<noteq> - 230584300921369408
   \<and> (3602879701896397 / 18014398509481984 :: rat) \<noteq> 0"
  using mean_cancelling_order mean_absorbing_order mean_cancelling_order_compensated
    mean_absorbing_order_compensated round2_fifth round2_large round2_zero
  by simp

subsection \<open>The range of the mean\<close>

text \<open>
  C8, in exact arithmetic. For every non-empty list of scores the mean the function
  computes (before rounding) lies between the least and the greatest score.
\<close>

theorem mean_within_range:
  "scores \<noteq> [] \<Longrightarrow>
   \<exists>mean. mean_of scores = Inr mean
     \<and> Min (set scores) \<le> mean \<and> mean \<le> Max (set scores)"
  by (simp add: mean_of_nonempty arithmetic_mean_bounds)

theorem mean_within_range_witness:
  "[1, 5, 3] \<noteq> ([] :: real list)
   \<and> (\<exists>mean. mean_of [1, 5, 3] = Inr mean \<and> 1 \<le> mean \<and> mean \<le> 5)"
  using mean_within_range [of "[1, 5, 3]"] by simp

text \<open>
  C8 as stated, for the value the interpreter computes, fails: for the scores
  \<^verbatim>\<open>[0.1, 0.1, 0.1]\<close> the binary64 sum is \<^verbatim>\<open>0.30000000000000004\<close> and the mean is
  \<^verbatim>\<open>0.10000000000000002\<close>, one unit in the last place above the greatest score, with
  either summation.
\<close>

theorem mean_exceeds_max_binary64:
  "b64 (3602879701896397 / 36028797018963968) = Some (3602879701896397 / 36028797018963968)
   \<and> mean_of_b64 b64_sum
        [3602879701896397 / 36028797018963968, 3602879701896397 / 36028797018963968,
         3602879701896397 / 36028797018963968]
      = Some (7205759403792795 / 72057594037927936)
   \<and> mean_of_b64 b64_sum_compensated
        [3602879701896397 / 36028797018963968, 3602879701896397 / 36028797018963968,
         3602879701896397 / 36028797018963968]
      = Some (7205759403792795 / 72057594037927936)
   \<and> Max (set [3602879701896397 / 36028797018963968, 3602879701896397 / 36028797018963968,
                3602879701896397 / 36028797018963968 :: rat])
      < 7205759403792795 / 72057594037927936"
  using tenth_is_b64 mean_of_three_tenths mean_of_three_tenths_compensated
  by simp

end
